theory Spec2Isabelle
  imports Complex_Main
begin

section \<open>JavaScript text and \<open>JSON.parse\<close>\<close>

text \<open>
  The control endpoint of \<^verbatim>\<open>httpServer.ts\<close> reads the body of \<^verbatim>\<open>POST /run\<close> as text and
  hands it to \<^verbatim>\<open>JSON.parse\<close>. A JavaScript string is a sequence of UTF-16 code units; it
  is modelled as a list of natural numbers, one per code unit, and \<open>js\<close> turns an
  Isabelle string literal into that form. \<^verbatim>\<open>chunk.toString()\<close> (the UTF-8 decoding of a
  received buffer) is not modelled: a chunk is given by the text it decodes to.
\<close>

type_synonym ustring = "nat list"

definition js :: "string \<Rightarrow> ustring" where
  "js s = map of_char s"

text \<open>
  The value \<^verbatim>\<open>JSON.parse\<close> returns. A number carries the exact rational its literal
  denotes (the engine rounds it to a double, which matters to this program only for
  whether it is zero, see \<open>falsy\<close>). An object is the list of its members as written;
  where a name is repeated the later member wins, which is how \<open>get_property\<close> reads it.
\<close>

datatype json =
    JNull
  | JBool bool
  | JNum rat
  | JStr ustring
  | JArr "json list"
  | JObj "(ustring \<times> json) list"

text \<open>
  \<^verbatim>\<open>JSON.parse\<close> is the platform's, not this repository's. It is written out here after
  the JSON grammar of ECMA-404, which ECMAScript prescribes for it, in two passes that
  are both plain recursions over their input: a scanner that reads one code unit at a
  time, and a parser that reads one token at a time and keeps the open arrays and
  objects on a stack. \<open>None\<close> stands for the \<^verbatim>\<open>SyntaxError\<close> it throws. The engine's
  limits on nesting depth and on memory are not modelled.
\<close>

datatype token = TLBrace | TRBrace | TLBrack | TRBrack | TColon | TComma | TLit json

datatype nphase = NMinus | NZero | NInt | NDot | NFrac | NE | NESign | NExp

datatype lmode =
    LStart
  | LStr ustring
  | LEsc ustring
  | LUni ustring nat nat
  | LWord ustring json
  | LNum nphase bool nat nat bool nat

definition is_ws :: "nat \<Rightarrow> bool" where
  "is_ws c = (c = 0x20 \<or> c = 0x09 \<or> c = 0x0A \<or> c = 0x0D)"

definition is_digit :: "nat \<Rightarrow> bool" where
  "is_digit c = (0x30 \<le> c \<and> c \<le> 0x39)"

definition hex_val :: "nat \<Rightarrow> nat option" where
  "hex_val c =
     (if 0x30 \<le> c \<and> c \<le> 0x39 then Some (c - 0x30)
      else if 0x41 \<le> c \<and> c \<le> 0x46 then Some (c - 0x37)
      else if 0x61 \<le> c \<and> c \<le> 0x66 then Some (c - 0x57)
      else None)"

text \<open>
  A number being read is its sign, the digits of integer and fraction part as one
  natural number, the count of fraction digits, and the sign and value of the exponent.
\<close>

definition num_value :: "bool \<Rightarrow> nat \<Rightarrow> nat \<Rightarrow> bool \<Rightarrow> nat \<Rightarrow> rat" where
  "num_value neg m fd eneg e =
     (if neg then - 1 else 1) * of_nat m * (if eneg then 1 / 10 ^ e else 10 ^ e) / 10 ^ fd"

definition num_final :: "nphase \<Rightarrow> bool" where
  "num_final ph = (ph = NZero \<or> ph = NInt \<or> ph = NFrac \<or> ph = NExp)"

definition lex_start :: "nat \<Rightarrow> (token list \<times> lmode) option" where
  "lex_start c =
     (if is_ws c then Some ([], LStart)
      else if c = 0x7B \<comment> \<open>left brace\<close> then Some ([TLBrace], LStart)
      else if c = 0x7D \<comment> \<open>right brace\<close> then Some ([TRBrace], LStart)
      else if c = 0x5B \<comment> \<open>left bracket\<close> then Some ([TLBrack], LStart)
      else if c = 0x5D \<comment> \<open>right bracket\<close> then Some ([TRBrack], LStart)
      else if c = 0x3A \<comment> \<open>colon\<close> then Some ([TColon], LStart)
      else if c = 0x2C \<comment> \<open>comma\<close> then Some ([TComma], LStart)
      else if c = 0x22 \<comment> \<open>double quote\<close> then Some ([], LStr [])
      else if c = 0x74 \<comment> \<open>t\<close> then Some ([], LWord (js ''rue'') (JBool True))
      else if c = 0x66 \<comment> \<open>f\<close> then Some ([], LWord (js ''alse'') (JBool False))
      else if c = 0x6E \<comment> \<open>n\<close> then Some ([], LWord (js ''ull'') JNull)
      else if c = 0x2D \<comment> \<open>minus\<close> then Some ([], LNum NMinus True 0 0 False 0)
      else if c = 0x30 \<comment> \<open>digit 0\<close> then Some ([], LNum NZero False 0 0 False 0)
      else if is_digit c then Some ([], LNum NInt False (c - 0x30) 0 False 0)
      else None)"

fun num_step :: "nphase \<Rightarrow> bool \<Rightarrow> nat \<Rightarrow> nat \<Rightarrow> bool \<Rightarrow> nat \<Rightarrow> nat \<Rightarrow> lmode option" where
  "num_step NMinus neg m fd eneg e c =
     (if c = 0x30 then Some (LNum NZero neg m fd eneg e)
      else if is_digit c then Some (LNum NInt neg (c - 0x30) fd eneg e)
      else None)"
| "num_step NZero neg m fd eneg e c =
     (if c = 0x2E \<comment> \<open>full stop\<close> then Some (LNum NDot neg m fd eneg e)
      else if c = 0x65 \<or> c = 0x45 \<comment> \<open>e, E\<close> then Some (LNum NE neg m fd eneg e)
      else None)"
| "num_step NInt neg m fd eneg e c =
     (if is_digit c then Some (LNum NInt neg (10 * m + (c - 0x30)) fd eneg e)
      else if c = 0x2E then Some (LNum NDot neg m fd eneg e)
      else if c = 0x65 \<or> c = 0x45 then Some (LNum NE neg m fd eneg e)
      else None)"
| "num_step NDot neg m fd eneg e c =
     (if is_digit c then Some (LNum NFrac neg (10 * m + (c - 0x30)) (Suc fd) eneg e)
      else None)"
| "num_step NFrac neg m fd eneg e c =
     (if is_digit c then Some (LNum NFrac neg (10 * m + (c - 0x30)) (Suc fd) eneg e)
      else if c = 0x65 \<or> c = 0x45 then Some (LNum NE neg m fd eneg e)
      else None)"
| "num_step NE neg m fd eneg e c =
     (if c = 0x2B \<comment> \<open>plus\<close> then Some (LNum NESign neg m fd False e)
      else if c = 0x2D then Some (LNum NESign neg m fd True e)
      else if is_digit c then Some (LNum NExp neg m fd eneg (c - 0x30))
      else None)"
| "num_step NESign neg m fd eneg e c =
     (if is_digit c then Some (LNum NExp neg m fd eneg (c - 0x30)) else None)"
| "num_step NExp neg m fd eneg e c =
     (if is_digit c then Some (LNum NExp neg m fd eneg (10 * e + (c - 0x30))) else None)"

text \<open>
  One step of the scanner: the tokens the code unit completes and the mode for the next
  one. Inside a string, 0x5C is the backslash and the units below 0x20 are refused; after
  a backslash come the eight one-letter escapes or \<^verbatim>\<open>u\<close> and four hexadecimal digits. A code
  unit that cannot continue a number ends it, if the number is complete, and is then
  read as the start of the next token.
\<close>

fun lex_step :: "lmode \<Rightarrow> nat \<Rightarrow> (token list \<times> lmode) option" where
  "lex_step LStart c = lex_start c"
| "lex_step (LStr acc) c =
     (if c = 0x22 then Some ([TLit (JStr (rev acc))], LStart)
      else if c = 0x5C then Some ([], LEsc acc)
      else if c < 0x20 then None
      else Some ([], LStr (c # acc)))"
| "lex_step (LEsc acc) c =
     (if c = 0x22 \<or> c = 0x5C \<or> c = 0x2F then Some ([], LStr (c # acc))
      else if c = 0x62 \<comment> \<open>b\<close> then Some ([], LStr (0x08 # acc))
      else if c = 0x66 \<comment> \<open>f\<close> then Some ([], LStr (0x0C # acc))
      else if c = 0x6E \<comment> \<open>n\<close> then Some ([], LStr (0x0A # acc))
      else if c = 0x72 \<comment> \<open>r\<close> then Some ([], LStr (0x0D # acc))
      else if c = 0x74 \<comment> \<open>t\<close> then Some ([], LStr (0x09 # acc))
      else if c = 0x75 \<comment> \<open>u\<close> then Some ([], LUni acc 0 0)
      else None)"
| "lex_step (LUni acc n k) c =
     (case hex_val c of
        None \<Rightarrow> None
      | Some d \<Rightarrow>
          if k = 3 then Some ([], LStr ((16 * n + d) # acc))
          else Some ([], LUni acc (16 * n + d) (Suc k)))"
| "lex_step (LWord [] v) c = None"
| "lex_step (LWord (x # xs) v) c =
     (if c \<noteq> x then None
      else if xs = [] then Some ([TLit v], LStart)
      else Some ([], LWord xs v))"
| "lex_step (LNum ph neg m fd eneg e) c =
     (case num_step ph neg m fd eneg e c of
        Some md \<Rightarrow> Some ([], md)
      | None \<Rightarrow>
          if num_final ph then
            (case lex_start c of
               None \<Rightarrow> None
             | Some (ts, md) \<Rightarrow> Some (TLit (JNum (num_value neg m fd eneg e)) # ts, md))
          else None)"

fun lex_end :: "lmode \<Rightarrow> token list option" where
  "lex_end LStart = Some []"
| "lex_end (LNum ph neg m fd eneg e) =
     (if num_final ph then Some [TLit (JNum (num_value neg m fd eneg e))] else None)"
| "lex_end _ = None"

fun lex :: "lmode \<Rightarrow> ustring \<Rightarrow> token list option" where
  "lex md [] = lex_end md"
| "lex md (c # cs) =
     (case lex_step md c of
        None \<Rightarrow> None
      | Some (ts, md') \<Rightarrow>
          (case lex md' cs of None \<Rightarrow> None | Some us \<Rightarrow> Some (ts @ us)))"

text \<open>
  The parser. A frame is an array or object still open, with what it holds so far in
  reverse; \<open>FKey\<close> is an object whose next member has its name but not yet its value.
  The mode says what may come next.
\<close>

datatype frame =
    FArr "json list"
  | FObj "(ustring \<times> json) list"
  | FKey "(ustring \<times> json) list" ustring

datatype pmode = PValue | PValueOrEnd | PKeyOrEnd | PKey | PColon | PAfter | PDone json

fun complete :: "json \<Rightarrow> frame list \<Rightarrow> (frame list \<times> pmode) option" where
  "complete v [] = Some ([], PDone v)"
| "complete v (FArr xs # st) = Some (FArr (v # xs) # st, PAfter)"
| "complete v (FKey kvs k # st) = Some (FObj ((k, v) # kvs) # st, PAfter)"
| "complete v (FObj kvs # st) = None"

fun close_arr :: "frame list \<Rightarrow> (frame list \<times> pmode) option" where
  "close_arr (FArr xs # st) = complete (JArr (rev xs)) st"
| "close_arr _ = None"

fun close_obj :: "frame list \<Rightarrow> (frame list \<times> pmode) option" where
  "close_obj (FObj kvs # st) = complete (JObj (rev kvs)) st"
| "close_obj _ = None"

fun open_value :: "token \<Rightarrow> frame list \<Rightarrow> (frame list \<times> pmode) option" where
  "open_value (TLit v) st = complete v st"
| "open_value TLBrack st = Some (FArr [] # st, PValueOrEnd)"
| "open_value TLBrace st = Some (FObj [] # st, PKeyOrEnd)"
| "open_value _ st = None"

fun take_key :: "token \<Rightarrow> frame list \<Rightarrow> (frame list \<times> pmode) option" where
  "take_key (TLit (JStr k)) (FObj kvs # st) = Some (FKey kvs k # st, PColon)"
| "take_key _ _ = None"

fun after_value :: "token \<Rightarrow> frame list \<Rightarrow> (frame list \<times> pmode) option" where
  "after_value TComma (FArr xs # st) = Some (FArr xs # st, PValue)"
| "after_value TComma (FObj kvs # st) = Some (FObj kvs # st, PKey)"
| "after_value TRBrack st = close_arr st"
| "after_value TRBrace st = close_obj st"
| "after_value _ _ = None"

fun parse_step :: "pmode \<Rightarrow> token \<Rightarrow> frame list \<Rightarrow> (frame list \<times> pmode) option" where
  "parse_step PValue t st = open_value t st"
| "parse_step PValueOrEnd t st = (if t = TRBrack then close_arr st else open_value t st)"
| "parse_step PKeyOrEnd t st = (if t = TRBrace then close_obj st else take_key t st)"
| "parse_step PKey t st = take_key t st"
| "parse_step PColon t st = (if t = TColon then Some (st, PValue) else None)"
| "parse_step PAfter t st = after_value t st"
| "parse_step (PDone v) t st = None"

fun parse_tokens :: "pmode \<Rightarrow> frame list \<Rightarrow> token list \<Rightarrow> json option" where
  "parse_tokens (PDone v) [] [] = Some v"
| "parse_tokens md st [] = None"
| "parse_tokens md st (t # ts) =
     (case parse_step md t st of
        None \<Rightarrow> None
      | Some (st', md') \<Rightarrow> parse_tokens md' st' ts)"

definition JSON_parse :: "ustring \<Rightarrow> json option" where
  "JSON_parse text =
     (case lex LStart text of
        None \<Rightarrow> None
      | Some ts \<Rightarrow> parse_tokens PValue [] ts)"

section \<open>What the handler reads from the parsed body\<close>

text \<open>
  \<^verbatim>\<open>const { instructions, sessionId } = data\<close> (line 134) throws a \<^verbatim>\<open>TypeError\<close> when
  \<open>data\<close> is \<^verbatim>\<open>null\<close> and otherwise reads the two properties. An object has the
  members it was written with; a number, a string, a boolean and an array have no property
  of either name, nor has any built-in prototype, so for them the read gives
  \<^verbatim>\<open>undefined\<close>, which is \<open>None\<close>.
\<close>

datatype exn = SyntaxError | TypeError | RangeError

fun get_property :: "json \<Rightarrow> ustring \<Rightarrow> json option" where
  "get_property (JObj kvs) k = map_of (rev kvs) k"
| "get_property _ k = None"

definition destructure :: "json \<Rightarrow> ustring \<Rightarrow> exn + json option" where
  "destructure data k = (if data = JNull then Inl TypeError else Inr (get_property data k))"

text \<open>
  \<^verbatim>\<open>!v\<close> and \<^verbatim>\<open>typeof v\<close> on a value read from the body. A number is falsy when the
  double it rounds to is zero, that is when its magnitude is at most \<open>1 / 2 ^ 1075\<close>,
  half the least positive double.
\<close>

fun falsy :: "json option \<Rightarrow> bool" where
  "falsy None = True"
| "falsy (Some JNull) = True"
| "falsy (Some (JBool b)) = (\<not> b)"
| "falsy (Some (JNum q)) = (\<bar>q\<bar> \<le> 1 / 2 ^ 1075)"
| "falsy (Some (JStr s)) = (s = [])"
| "falsy (Some (JArr xs)) = False"
| "falsy (Some (JObj kvs)) = False"

fun typeof :: "json option \<Rightarrow> string" where
  "typeof None = ''undefined''"
| "typeof (Some JNull) = ''object''"
| "typeof (Some (JBool b)) = ''boolean''"
| "typeof (Some (JNum q)) = ''number''"
| "typeof (Some (JStr s)) = ''string''"
| "typeof (Some (JArr xs)) = ''object''"
| "typeof (Some (JObj kvs)) = ''object''"

fun string_of :: "json option \<Rightarrow> ustring" where
  "string_of (Some (JStr s)) = s"
| "string_of _ = []"

section \<open>Data model\<close>

text \<open>
  Modelled from the spec: \<^verbatim>\<open>StatusEnum\<close> is declared in \<^verbatim>\<open>@ui-tars/shared/types\<close>, which
  is not among the sources. The spec lists the members \<^verbatim>\<open>IDLE\<close>, \<^verbatim>\<open>RUNNING\<close>,
  \<^verbatim>\<open>END\<close>, \<^verbatim>\<open>ERROR\<close> and leaves the list open; \<open>OTHER\<close> stands for the members it does
  not name.
\<close>

datatype StatusEnum = IDLE | RUNNING | END | ERROR | OTHER string

text \<open>
  Modelled from the spec: the type of the store's state (\<^verbatim>\<open>@main/store/create\<close>) is not
  among the sources either. These are the fields the handler reads and writes, with the
  types the spec gives them. A transcript entry is plain data; only the length of the
  transcript is ever used. \<open>abortController\<close> holds the address of an
  \<^verbatim>\<open>AbortController\<close> (see \<open>controllers\<close> below), \<open>None\<close> where the field is empty.
\<close>

type_synonym message = json

record RunState =
  status :: StatusEnum
  thinking :: bool
  instructions :: "ustring option"
  messages :: "message list option"
  errorMsg :: "string option"
  abortController :: "nat option"

text \<open>
  A JavaScript number, as a port is one: a rational (every finite double is one), or one
  of the three values that are not finite.
\<close>

datatype number = Num rat | NaN | PosInfinity | NegInfinity

text \<open>
  The configuration as it is at run time. The interface declares \<^verbatim>\<open>enabled\<close>,
  \<^verbatim>\<open>port\<close> and \<^verbatim>\<open>host\<close> as always there and \<^verbatim>\<open>apiKey\<close> as optional, but
  \<open>setConfig\<close> can store \<^verbatim>\<open>undefined\<close> in any of the four (see \<open>merge\<close>), so each field
  is a value or \<^verbatim>\<open>undefined\<close>, which is \<open>None\<close>.
\<close>

record HttpServerConfig =
  enabled :: "bool option"
  port :: "number option"
  host :: "string option"
  apiKey :: "string option"

text \<open>
  \<^verbatim>\<open>Partial<HttpServerConfig>\<close>: a key is missing (\<open>None\<close>), or it is there with a value
  (\<open>Some (Some v)\<close>) or with \<^verbatim>\<open>undefined\<close> (\<open>Some None\<close>). The route
  \<^verbatim>\<open>startHttpServer\<close> builds the latter when the settings store lacks a key: it passes
  \<^verbatim>\<open>port: config.httpServerPort\<close> and the like.
\<close>

record PartialConfig =
  enabled_given :: "bool option option"
  port_given :: "number option option"
  host_given :: "string option option"
  apiKey_given :: "string option option"

definition DEFAULT_CONFIG :: HttpServerConfig where
  "DEFAULT_CONFIG =
     \<lparr>enabled = Some False, port = Some (Num 9527), host = Some ''127.0.0.1'', apiKey = None\<rparr>"

text \<open>
  The object \<^verbatim>\<open>http.createServer\<close> returns. It is \<open>Created\<close> until \<^verbatim>\<open>listen(port, host)\<close>
  has returned, and from then on \<open>Listening\<close> with the two arguments it was given (with
  no port the platform picks one, with no host it takes every interface). Whether the
  bind succeeds is reported later, to callbacks that only write a log line.
\<close>

datatype Server = Created | Listening "number option" "string option"

datatype log_entry = LogWarn string | LogInfo string | LogError string

text \<open>
  The object handed to \<open>sendJson\<close>, as the list of its properties. \<open>FText\<close> is a
  JavaScript string that came from a request body, or \<^verbatim>\<open>undefined\<close>; \<open>FMessage\<close> is the
  message text of an exception the engine threw, which the engine words.
  \<^verbatim>\<open>JSON.stringify\<close> is not modelled.
\<close>

datatype field =
    FBool bool
  | FNum nat
  | FStr string
  | FText "ustring option"
  | FStatus StatusEnum
  | FMessage exn

type_synonym payload = "(string \<times> field) list"

text \<open>
  Of a request the handler reads the method, the URL and the headers (names in lower
  case, as Node delivers them).
\<close>

record IncomingMessage =
  httpMethod :: string
  url :: string
  headers :: "(string \<times> string) list"

record ServerResponse =
  statusCode :: nat
  res_headers :: "(string \<times> string) list"
  res_body :: "payload option"

text \<open>
  Everything the service touches, passed through every operation: its own two fields
  \<^verbatim>\<open>this.server\<close> and \<^verbatim>\<open>this.config\<close>, the state of the store, the
  \<^verbatim>\<open>AbortController\<close>s created so far (the flag \<^verbatim>\<open>signal.aborted\<close> of each, at the address
  that is its position), the responses written so far, over all connections, and the
  log.
\<close>

record process =
  server :: "Server option"
  config :: HttpServerConfig
  store :: RunState
  controllers :: "bool list"
  written :: "ServerResponse list"
  logged :: "log_entry list"

text \<open>
  The agent runner (\<^verbatim>\<open>./runAgent\<close>) is not among the sources and is a parameter of the
  handler. \<open>runAgent\<close> is what the call \<^verbatim>\<open>runAgent(store.setState, store.getState)\<close> does
  before it hands back its promise, \<open>onabort\<close> what the listeners on a controller's signal
  do when it is aborted. The promise settles in a later turn of the event loop; a
  rejection carries a reason, which is \<^verbatim>\<open>null\<close> or \<^verbatim>\<open>undefined\<close> (\<open>Nullish\<close>) or a
  value with properties, given by its \<^verbatim>\<open>message\<close> property, if it has one.
\<close>

record Runner =
  runAgent :: "process \<Rightarrow> process"
  onabort :: "nat \<Rightarrow> process \<Rightarrow> process"

datatype reason = Nullish | Thrown "string option"

section \<open>The control service\<close>

text \<open>
  \<^verbatim>\<open>{ ...this.config, ...config }\<close> (line 29): every key the partial configuration has
  overrides, whatever its value, \<^verbatim>\<open>undefined\<close> too.
\<close>

definition merge :: "HttpServerConfig \<Rightarrow> PartialConfig \<Rightarrow> HttpServerConfig" where
  "merge c pc =
     \<lparr>enabled = (case enabled_given pc of None \<Rightarrow> enabled c | Some v \<Rightarrow> v),
      port = (case port_given pc of None \<Rightarrow> port c | Some v \<Rightarrow> v),
      host = (case host_given pc of None \<Rightarrow> host c | Some v \<Rightarrow> v),
      apiKey = (case apiKey_given pc of None \<Rightarrow> apiKey c | Some v \<Rightarrow> v)\<rparr>"

definition logger :: "log_entry \<Rightarrow> process \<Rightarrow> process" where
  "logger e p = p\<lparr>logged := logged p @ [e]\<rparr>"

text \<open>\<^verbatim>\<open>this.config.enabled\<close> as a condition: \<^verbatim>\<open>undefined\<close> counts as false.\<close>

definition truthy_flag :: "bool option \<Rightarrow> bool" where
  "truthy_flag b = (b = Some True)"

text \<open>
  \<^verbatim>\<open>server.listen(port, host, callback)\<close>. Node checks a port that is a number before
  it does anything else and throws a \<^verbatim>\<open>RangeError\<close> unless it is an integer from 0 to
  65535; otherwise the call returns and the bind goes on in the background.
\<close>

definition valid_port :: "number \<Rightarrow> bool" where
  "valid_port n =
     (case n of
        Num q \<Rightarrow> of_int \<lfloor>q\<rfloor> = q \<and> 0 \<le> q \<and> q \<le> 65535
      | NaN \<Rightarrow> False
      | PosInfinity \<Rightarrow> False
      | NegInfinity \<Rightarrow> False)"

definition listen :: "number option \<Rightarrow> string option \<Rightarrow> exn + Server" where
  "listen n h =
     (case n of
        None \<Rightarrow> Inr (Listening n h)
      | Some v \<Rightarrow> if valid_port v then Inr (Listening n h) else Inl RangeError)"

text \<open>
  An operation of the service returns, or throws with the process as it has left it.
  \<open>start\<close> (lines 42 to 66) assigns \<^verbatim>\<open>this.server\<close> before it calls \<^verbatim>\<open>listen\<close>, so when
  \<^verbatim>\<open>listen\<close> throws the field stays set, and the exception leaves \<open>start\<close> and \<open>setConfig\<close>,
  neither of which catches it.
\<close>

datatype completion = Returns (result: process) | Throws exn (result: process)

definition start :: "process \<Rightarrow> completion" where
  "start p =
     (if server p \<noteq> None then
        Returns (logger (LogWarn ''[HttpServer] Server already running'') p)
      else if \<not> truthy_flag (enabled (config p)) then
        Returns (logger (LogInfo ''[HttpServer] Server is disabled'') p)
      else
        let p1 = p\<lparr>server := Some Created\<rparr> in
        case listen (port (config p1)) (host (config p1)) of
          Inl e \<Rightarrow> Throws e p1
        | Inr s \<Rightarrow> Returns (p1\<lparr>server := Some s\<rparr>))"

definition stop :: "process \<Rightarrow> process" where
  "stop p = (if server p \<noteq> None then p\<lparr>server := None\<rparr> else p)"

definition setConfig :: "PartialConfig \<Rightarrow> process \<Rightarrow> completion" where
  "setConfig pc p =
     (let p1 = p\<lparr>config := merge (config p) pc\<rparr> in
      if server p1 \<noteq> None \<and> \<not> truthy_flag (enabled (config p1)) then Returns (stop p1)
      else if server p1 = None \<and> truthy_flag (enabled (config p1)) then start p1
      else Returns p1)"

definition getConfig :: "process \<Rightarrow> HttpServerConfig" where
  "getConfig p = config p"

section \<open>The request handler\<close>

definition cors :: "(string \<times> string) list" where
  "cors =
     [(''Access-Control-Allow-Origin'', ''*''),
      (''Access-Control-Allow-Methods'', ''GET, POST, OPTIONS''),
      (''Access-Control-Allow-Headers'', ''Content-Type, X-API-Key'')]"

definition json_reply :: "nat \<Rightarrow> payload \<Rightarrow> ServerResponse" where
  "json_reply code data =
     \<lparr>statusCode = code,
      res_headers = cors @ [(''Content-Type'', ''application/json'')],
      res_body = Some data\<rparr>"

definition sendJson :: "nat \<Rightarrow> payload \<Rightarrow> process \<Rightarrow> process" where
  "sendJson code data p = p\<lparr>written := written p @ [json_reply code data]\<rparr>"

definition preflight :: ServerResponse where
  "preflight = \<lparr>statusCode = 200, res_headers = cors, res_body = None\<rparr>"

text \<open>
  \<^verbatim>\<open>new AbortController()\<close> takes the next free address, with the flag down.
  \<^verbatim>\<open>abort()\<close> raises the flag and runs the listeners, once: on a controller already
  aborted it does nothing.
\<close>

definition newAbortController :: "process \<Rightarrow> nat \<times> process" where
  "newAbortController p = (length (controllers p), p\<lparr>controllers := controllers p @ [False]\<rparr>)"

definition abort :: "Runner \<Rightarrow> nat \<Rightarrow> process \<Rightarrow> process" where
  "abort env h p =
     (if h < length (controllers p) \<and> \<not> controllers p ! h
      then onabort env h (p\<lparr>controllers := (controllers p)[h := True]\<rparr>)
      else p)"

text \<open>\<^verbatim>\<open>if (this.config.apiKey)\<close>: a key is configured when it is there and not empty.\<close>

definition truthy_key :: "string option \<Rightarrow> bool" where
  "truthy_key k = (case k of None \<Rightarrow> False | Some s \<Rightarrow> s \<noteq> [])"

text \<open>\<^verbatim>\<open>messages?.length || 0\<close>\<close>

definition length_or_0 :: "message list option \<Rightarrow> nat" where
  "length_or_0 ms = (case ms of None \<Rightarrow> 0 | Some xs \<Rightarrow> length xs)"

text \<open>
  The body of \<^verbatim>\<open>POST /run\<close> arrives in chunks, each appended to what came before
  (line 128); when the last has come the \<^verbatim>\<open>end\<close> listener (lines 131 to 188) runs, on the
  state the process has by then. \<open>caught\<close> is its \<^verbatim>\<open>catch\<close> block: the exceptions that
  can reach it are instances of \<^verbatim>\<open>Error\<close>, so the reply carries their message.
\<close>

definition on_data :: "ustring \<Rightarrow> ustring \<Rightarrow> ustring" where
  "on_data body chunk = body @ chunk"

definition caught :: "exn \<Rightarrow> process \<Rightarrow> process" where
  "caught e p =
     sendJson 500 [(''error'', FStr ''Internal Server Error''), (''message'', FMessage e)]
       (logger (LogError ''[HttpServer] Error handling /run:'') p)"

definition on_end :: "Runner \<Rightarrow> ustring \<Rightarrow> process \<Rightarrow> process" where
  "on_end env body p =
     (case JSON_parse (if body = [] then js ''{}'' else body) of
        None \<Rightarrow> caught SyntaxError p
      | Some data \<Rightarrow>
          (case destructure data (js ''instructions'') of
             Inl e \<Rightarrow> caught e p
           | Inr instr \<Rightarrow>
               if falsy instr \<or> typeof instr \<noteq> ''string'' then
                 sendJson 400
                   [(''error'', FStr ''Bad Request''),
                    (''message'', FStr ''instructions is required and must be a string'')] p
               else if thinking (store p) \<or> status (store p) = RUNNING then
                 sendJson 409
                   [(''error'', FStr ''Conflict''),
                    (''message'', FStr ''Agent is already running'')] p
               else
                 let (h, p1) = newAbortController p;
                     p2 = p1\<lparr>store := (store p1)
                            \<lparr>instructions := Some (string_of instr),
                             abortController := Some h,
                             thinking := True,
                             errorMsg := None\<rparr>\<rparr>;
                     p3 = runAgent env p2
                 in sendJson 200
                      [(''success'', FBool True),
                       (''message'', FStr ''Agent started''),
                       (''instructions'', FText (Some (string_of instr)))] p3))"

text \<open>
  The two callbacks on the promise of \<^verbatim>\<open>runAgent\<close> (lines 164 to 174). They run when the
  promise settles and write no response. In the second, \<^verbatim>\<open>error.message\<close> is read off
  the reason: on \<^verbatim>\<open>null\<close> and \<^verbatim>\<open>undefined\<close> the read throws, after the log line and
  before the store is written.
\<close>

definition runAgent_then :: "process \<Rightarrow> process" where
  "runAgent_then p = p\<lparr>store := (store p)\<lparr>thinking := False\<rparr>\<rparr>"

definition runAgent_catch :: "reason \<Rightarrow> process \<Rightarrow> process" where
  "runAgent_catch r p =
     (let p1 = logger (LogError ''[HttpServer] runAgent error:'') p in
      case r of
        Nullish \<Rightarrow> p1
      | Thrown m \<Rightarrow>
          p1\<lparr>store := (store p1)\<lparr>thinking := False, status := ERROR, errorMsg := m\<rparr>\<rparr>)"

text \<open>
  \<open>handleRequest\<close> up to its return (lines 77 to 205). It has either written the
  response (\<open>Finished\<close>) or, for \<^verbatim>\<open>POST /run\<close>, put the two listeners on the request and
  written nothing yet (\<open>Reading\<close>); \<open>after\<close> is the process it leaves.
\<close>

datatype handled = Finished (after: process) | Reading (after: process)

definition handleRequest :: "Runner \<Rightarrow> IncomingMessage \<Rightarrow> process \<Rightarrow> handled" where
  "handleRequest env req p =
     (if httpMethod req = ''OPTIONS'' then Finished (p\<lparr>written := written p @ [preflight]\<rparr>)
      else if truthy_key (apiKey (config p))
              \<and> map_of (headers req) ''x-api-key'' \<noteq> apiKey (config p) then
        Finished (sendJson 401 [(''error'', FStr ''Unauthorized'')] p)
      else if httpMethod req = ''GET'' \<and> url req = ''/health'' then
        Finished (sendJson 200
          [(''status'', FStr ''ok''),
           (''agentStatus'', FStatus (status (store p))),
           (''isRunning'', FBool (thinking (store p)))] p)
      else if httpMethod req = ''GET'' \<and> url req = ''/status'' then
        Finished (sendJson 200
          [(''status'', FStatus (status (store p))),
           (''instructions'', FText (instructions (store p))),
           (''isRunning'', FBool (thinking (store p))),
           (''messageCount'', FNum (length_or_0 (messages (store p))))] p)
      else if httpMethod req = ''POST'' \<and> url req = ''/run'' then Reading p
      else if httpMethod req = ''POST'' \<and> url req = ''/stop'' then
        (let ac = abortController (store p);
             p1 = p\<lparr>store := (store p)\<lparr>status := END, thinking := False\<rparr>\<rparr>;
             p2 = (case ac of None \<Rightarrow> p1 | Some h \<Rightarrow> abort env h p1)
         in Finished (sendJson 200
              [(''success'', FBool True), (''message'', FStr ''Agent stopped'')] p2))
      else Finished (sendJson 404 [(''error'', FStr ''Not Found'')] p))"

text \<open>
  A whole exchange in which nothing else happens between the arrival of the request and
  the end of its body.
\<close>

definition serve :: "Runner \<Rightarrow> IncomingMessage \<Rightarrow> ustring list \<Rightarrow> process \<Rightarrow> process" where
  "serve env req chunks p =
     (case handleRequest env req p of
        Finished p' \<Rightarrow> p'
      | Reading p' \<Rightarrow> on_end env (foldl on_data [] chunks) p')"

text \<open>The response written last, and whether a request gets past the key check.\<close>

definition reply :: "process \<Rightarrow> ServerResponse" where
  "reply p = last (written p)"

definition passes_auth :: "IncomingMessage \<Rightarrow> process \<Rightarrow> bool" where
  "passes_auth req p =
     (if truthy_key (apiKey (config p))
      then map_of (headers req) ''x-api-key'' = apiKey (config p)
      else True)"

section \<open>Inputs of the examples\<close>

definition idle :: RunState where
  "idle = \<lparr>status = IDLE, thinking = False, instructions = None, messages = None,
            errorMsg = None, abortController = None\<rparr>"

definition boot :: process where
  "boot = \<lparr>server = None, config = DEFAULT_CONFIG, store = idle, controllers = [],
            written = [], logged = []\<rparr>"

text \<open>A runner that marks the agent as running before its first suspension.\<close>

definition runner0 :: Runner where
  "runner0 =
     \<lparr>runAgent = (\<lambda>p. p\<lparr>store := (store p)\<lparr>status := RUNNING\<rparr>\<rparr>),
      onabort = (\<lambda>h p. p)\<rparr>"

definition post_run :: IncomingMessage where
  "post_run = \<lparr>httpMethod = ''POST'', url = ''/run'', headers = []\<rparr>"

definition post_stop :: IncomingMessage where
  "post_stop = \<lparr>httpMethod = ''POST'', url = ''/stop'', headers = []\<rparr>"

definition get_health :: IncomingMessage where
  "get_health = \<lparr>httpMethod = ''GET'', url = ''/health'', headers = []\<rparr>"

definition get_status :: IncomingMessage where
  "get_status = \<lparr>httpMethod = ''GET'', url = ''/status'', headers = []\<rparr>"

definition options_run :: IncomingMessage where
  "options_run = \<lparr>httpMethod = ''OPTIONS'', url = ''/run'', headers = []\<rparr>"

definition body_calc :: ustring where
  \<open>body_calc = js ''{"instructions":"Open Calculator app"}''\<close>

definition body_blank :: ustring where
  \<open>body_blank = js ''{"instructions":""}''\<close>

definition body_null :: ustring where
  "body_null = js ''null''"

definition body_brace :: ustring where
  "body_brace = js ''{''"

text \<open>The process after \<open>boot\<close> has accepted a run, and one whose listener asks for a key.\<close>

definition busy :: process where
  "busy = on_end runner0 body_calc boot"

definition keyed :: process where
  "keyed =
     boot\<lparr>server := Some (Listening (Some (Num 9527)) (Some ''127.0.0.1'')),
          config := \<lparr>enabled = Some True, port = Some (Num 9527), host = Some ''127.0.0.1'',
                     apiKey = Some ''secret''\<rparr>\<rparr>"






definition switch_on_70000 :: PartialConfig where
  "switch_on_70000 =
     \<lparr>enabled_given = Some (Some True), port_given = Some (Some (Num 70000)), host_given = None,
      apiKey_given = None\<rparr>"

section \<open>Auxiliary facts\<close>

lemma sendJson_simps [simp]:
  "store (sendJson c d p) = store p"
  "controllers (sendJson c d p) = controllers p"
  "config (sendJson c d p) = config p"
  "server (sendJson c d p) = server p"
  "logged (sendJson c d p) = logged p"
  "written (sendJson c d p) = written p @ [json_reply c d]"
  "reply (sendJson c d p) = json_reply c d"
  by (simp_all add: sendJson_def reply_def)

lemma logger_simps [simp]:
  "store (logger e p) = store p"
  "controllers (logger e p) = controllers p"
  "config (logger e p) = config p"
  "server (logger e p) = server p"
  "written (logger e p) = written p"
  "logged (logger e p) = logged p @ [e]"
  by (simp_all add: logger_def)

lemma statusCode_json_reply [simp]: "statusCode (json_reply c d) = c"
  by (simp add: json_reply_def)

lemma res_body_json_reply [simp]: "res_body (json_reply c d) = Some d"
  by (simp add: json_reply_def)

text \<open>What \<open>sendJson\<close> writes, spelt out.\<close>

lemma sendJson_writes:
  "sendJson c d p =
     p\<lparr>written := written p
          @ [\<lparr>statusCode = c,
               res_headers = cors @ [(''Content-Type'', ''application/json'')],
               res_body = Some d\<rparr>]\<rparr>"
  by (simp add: sendJson_def json_reply_def)

lemma parse_empty: "JSON_parse [] = None"
  by code_simp

lemma parse_braces: "JSON_parse (js ''{}'') = Some (JObj [])"
  by code_simp

lemma parse_body_calc:
  "JSON_parse body_calc = Some (JObj [(js ''instructions'', JStr (js ''Open Calculator app''))])"
  unfolding body_calc_def by code_simp

lemma parse_body_blank: "JSON_parse body_blank = Some (JObj [(js ''instructions'', JStr [])])"
  unfolding body_blank_def by code_simp

lemma parse_body_null: "JSON_parse body_null = Some JNull"
  unfolding body_null_def by code_simp

lemma parse_body_brace: "JSON_parse body_brace = None"
  unfolding body_brace_def by code_simp

lemma bodies_nonempty:
  "body_calc \<noteq> []" "body_blank \<noteq> []" "body_null \<noteq> []" "body_brace \<noteq> []"
  by (simp_all add: body_calc_def body_blank_def body_null_def body_brace_def js_def)

lemma get_instructions_calc:
  "get_property (JObj [(js ''instructions'', JStr (js ''Open Calculator app''))]) (js ''instructions'')
     = Some (JStr (js ''Open Calculator app''))"
  by simp

lemma get_property_not_null: "get_property data k = Some v \<Longrightarrow> data \<noteq> JNull"
  by (cases data) auto

lemma handleRequest_run:
  assumes "httpMethod req = ''POST''" and "url req = ''/run''" and "passes_auth req p"
  shows "handleRequest env req p = Reading p"
  using assms by (auto simp: handleRequest_def passes_auth_def split: if_splits)

lemma on_end_valid:
  assumes "JSON_parse (if body = [] then js ''{}'' else body) = Some data"
    and "get_property data (js ''instructions'') = Some (JStr s)" and "s \<noteq> []"
  shows "on_end env body q =
     (if thinking (store q) \<or> status (store q) = RUNNING then
        sendJson 409 [(''error'', FStr ''Conflict''), (''message'', FStr ''Agent is already running'')] q
      else
        sendJson 200
          [(''success'', FBool True), (''message'', FStr ''Agent started''),
           (''instructions'', FText (Some s))]
          (runAgent env
            (q\<lparr>controllers := controllers q @ [False],
               store := (store q)\<lparr>instructions := Some s,
                                   abortController := Some (length (controllers q)),
                                   thinking := True, errorMsg := None\<rparr>\<rparr>)))"
  unfolding on_end_def using assms get_property_not_null[OF assms(2)]
  by (simp add: Let_def newAbortController_def destructure_def)

lemma on_end_invalid:
  assumes "JSON_parse (if body = [] then js ''{}'' else body) = Some data"
    and "data \<noteq> JNull"
    and "\<not> (\<exists>s. get_property data (js ''instructions'') = Some (JStr s) \<and> s \<noteq> [])"
  shows "on_end env body q =
     sendJson 400
       [(''error'', FStr ''Bad Request''),
        (''message'', FStr ''instructions is required and must be a string'')] q"
proof -
  let ?i = "get_property data (js ''instructions'')"
  have "falsy ?i \<or> typeof ?i \<noteq> ''string''"
  proof (cases ?i)
    case None
    then show ?thesis by simp
  next
    case (Some v)
    with assms(3) show ?thesis by (cases v) auto
  qed
  then show ?thesis
    unfolding on_end_def using assms(1,2) by (auto simp: destructure_def)
qed

lemma busy_is:
  "busy =
     boot\<lparr>store := \<lparr>status = RUNNING, thinking = True,
                      instructions = Some (js ''Open Calculator app''),
                      messages = None, errorMsg = None, abortController = Some 0\<rparr>,
          controllers := [False],
          written := [\<lparr>statusCode = 200,
                       res_headers = cors @ [(''Content-Type'', ''application/json'')],
                       res_body = Some [(''success'', FBool True),
                                        (''message'', FStr ''Agent started''),
                                        (''instructions'', FText (Some (js ''Open Calculator app'')))]\<rparr>]\<rparr>"
proof -
  have "JSON_parse (if body_calc = [] then js ''{}'' else body_calc)
          = Some (JObj [(js ''instructions'', JStr (js ''Open Calculator app''))])"
    using parse_body_calc bodies_nonempty(1) by simp
  from on_end_valid[OF this get_instructions_calc, of runner0 boot]
  show ?thesis
    by (simp add: busy_def js_def boot_def idle_def runner0_def sendJson_writes)
qed

lemma busy_store:
  "store busy =
     \<lparr>status = RUNNING, thinking = True, instructions = Some (js ''Open Calculator app''),
      messages = None, errorMsg = None, abortController = Some 0\<rparr>"
  "controllers busy = [False]"
  by (simp_all add: busy_is)

lemma busy_rest:
  "config busy = DEFAULT_CONFIG" "server busy = None" "logged busy = []"
  by (simp_all add: busy_is boot_def)

lemma auth_examples:
  "passes_auth post_run boot" "passes_auth post_stop boot"
  "passes_auth post_run busy" "passes_auth post_stop busy"
  by (simp_all add: passes_auth_def busy_rest boot_def DEFAULT_CONFIG_def truthy_key_def)

text \<open>
  What the two callbacks on the promise of the runner do when the reason of a rejection
  has properties: they write the store and no response.
\<close>

lemma runAgent_settled:
  "store (runAgent_then p) = (store p)\<lparr>thinking := False\<rparr>"
  "written (runAgent_then p) = written p"
  "store (runAgent_catch (Thrown m) p) = (store p)\<lparr>thinking := False, status := ERROR, errorMsg := m\<rparr>"
  "written (runAgent_catch (Thrown m) p) = written p"
  by (simp_all add: runAgent_then_def runAgent_catch_def)

text \<open>
  A port out of range: \<open>listen\<close> throws, \<open>setConfig\<close> with it, and the service is left with
  a server object that does not listen.
\<close>

lemma setConfig_port_out_of_range:
  "setConfig switch_on_70000 boot =
     Throws RangeError
       (boot\<lparr>config := \<lparr>enabled = Some True, port = Some (Num 70000), host = Some ''127.0.0.1'',
                          apiKey = None\<rparr>,
             server := Some Created\<rparr>)"
  by (simp add: setConfig_def start_def listen_def valid_port_def merge_def switch_on_70000_def
      boot_def DEFAULT_CONFIG_def truthy_flag_def Let_def)

section \<open>Claims\<close>

subsection \<open>C1: an accepted run\<close>

text \<open>
  C1, as amended. A \<^verbatim>\<open>POST /run\<close> that passes the key check is left waiting for its body
  (\<open>p\<close> is the process when the request arrives). When the body has come (\<open>q\<close> is the
  process by then), parses as JSON and holds \<^verbatim>\<open>instructions\<close> as a string that is not
  empty, and the store has \<open>thinking = False\<close> and a status other than \<open>RUNNING\<close>, the
  listener writes the store (the submitted string, a controller at an address not used
  before, \<open>thinking = True\<close>, \<open>errorMsg\<close> empty), calls the runner on that state, and, when
  the call has handed back its promise, writes one response: status 200, body
  \<^verbatim>\<open>{success: true, message: "Agent started", instructions}\<close> with the submitted string.
  The promise has not settled then, so \<open>thinking\<close> is still up in the state the runner
  was given.
\<close>

theorem run_accepted:
  assumes "httpMethod req = ''POST''" and "url req = ''/run''" and "passes_auth req p"
    and "JSON_parse (if body = [] then js ''{}'' else body) = Some data"
    and "get_property data (js ''instructions'') = Some (JStr s)" and "s \<noteq> []"
    and "\<not> thinking (store q)" and "status (store q) \<noteq> RUNNING"
  shows "handleRequest env req p = Reading p \<and>
         on_end env body q =
           (let q1 = runAgent env
                       (q\<lparr>controllers := controllers q @ [False],
                          store := (store q)\<lparr>instructions := Some s,
                                              abortController := Some (length (controllers q)),
                                              thinking := True, errorMsg := None\<rparr>\<rparr>)
            in q1\<lparr>written := written q1
                     @ [\<lparr>statusCode = 200,
                          res_headers = cors @ [(''Content-Type'', ''application/json'')],
                          res_body = Some [(''success'', FBool True),
                                           (''message'', FStr ''Agent started''),
                                           (''instructions'', FText (Some s))]\<rparr>]\<rparr>)"
  using handleRequest_run[OF assms(1-3)] on_end_valid[OF assms(4-6)] assms(7,8)
  by (simp add: sendJson_writes Let_def)

theorem run_accepted_witness:
  "handleRequest runner0 post_run boot = Reading boot \<and>
   written (on_end runner0 body_calc boot) =
     [\<lparr>statusCode = 200,
       res_headers = cors @ [(''Content-Type'', ''application/json'')],
       res_body = Some [(''success'', FBool True),
                        (''message'', FStr ''Agent started''),
                        (''instructions'', FText (Some (js ''Open Calculator app'')))]\<rparr>] \<and>
   store (on_end runner0 body_calc boot) =
     \<lparr>status = RUNNING, thinking = True, instructions = Some (js ''Open Calculator app''),
      messages = None, errorMsg = None, abortController = Some 0\<rparr> \<and>
   controllers (on_end runner0 body_calc boot) = [False]"
proof -
  have 1: "httpMethod post_run = ''POST''" "url post_run = ''/run''"
    by (simp_all add: post_run_def)
  have 3: "JSON_parse (if body_calc = [] then js ''{}'' else body_calc)
             = Some (JObj [(js ''instructions'', JStr (js ''Open Calculator app''))])"
    using parse_body_calc bodies_nonempty(1) by simp
  have 4: "js ''Open Calculator app'' \<noteq> []" by (simp add: js_def)
  have 5: "\<not> thinking (store boot)" "status (store boot) \<noteq> RUNNING"
    by (simp_all add: boot_def idle_def)
  show ?thesis
    using run_accepted[OF 1 auth_examples(1) 3 get_instructions_calc 4 5, of runner0]
    by (simp add: runner0_def boot_def idle_def Let_def)
qed

text \<open>
  C1 as stated fails where \<^verbatim>\<open>instructions\<close> is the empty string: the body parses, the
  field is there and is a string, nothing is running, and the one response written has
  status 400, with the store as it was (line 136 tests \<^verbatim>\<open>!instructions\<close> first).
\<close>

theorem run_blank_instructions_refused:
  "passes_auth post_run boot \<and>
   JSON_parse body_blank = Some (JObj [(js ''instructions'', JStr [])]) \<and>
   get_property (JObj [(js ''instructions'', JStr [])]) (js ''instructions'') = Some (JStr []) \<and>
   \<not> thinking (store boot) \<and> status (store boot) \<noteq> RUNNING \<and>
   written (serve runner0 post_run [body_blank] boot) =
     [\<lparr>statusCode = 400,
       res_headers = cors @ [(''Content-Type'', ''application/json'')],
       res_body = Some [(''error'', FStr ''Bad Request''),
                        (''message'', FStr ''instructions is required and must be a string'')]\<rparr>] \<and>
   store (serve runner0 post_run [body_blank] boot) = store boot"
proof -
  have 1: "httpMethod post_run = ''POST''" "url post_run = ''/run''"
    by (simp_all add: post_run_def)
  have 3: "JSON_parse (if body_blank = [] then js ''{}'' else body_blank)
             = Some (JObj [(js ''instructions'', JStr [])])"
    using parse_body_blank bodies_nonempty(2) by simp
  have 4: "serve runner0 post_run [body_blank] boot = on_end runner0 body_blank boot"
    using handleRequest_run[OF 1 auth_examples(1), of runner0] by (simp add: serve_def on_data_def)
  have 5: "on_end runner0 body_blank boot =
     sendJson 400
       [(''error'', FStr ''Bad Request''),
        (''message'', FStr ''instructions is required and must be a string'')] boot"
    by (rule on_end_invalid[OF 3]) simp_all
  show ?thesis
    using auth_examples(1) 4 5 parse_body_blank
    by (simp add: boot_def idle_def sendJson_writes)
qed

subsection \<open>C2: the conflict gate\<close>

text \<open>
  C2. A \<^verbatim>\<open>POST /run\<close> that passes the key check and whose body passes validation finds,
  when its body has come, \<open>thinking\<close> up or the status \<open>RUNNING\<close>: one response is written,
  status 409 and body \<^verbatim>\<open>{error: "Conflict", message: "Agent is already running"}\<close>, and
  nothing else in the process changes: the store, with its \<open>instructions\<close> and
  \<open>abortController\<close>, and the controllers are as they were.
\<close>

theorem run_conflict:
  assumes "httpMethod req = ''POST''" and "url req = ''/run''" and "passes_auth req p"
    and "JSON_parse (if body = [] then js ''{}'' else body) = Some data"
    and "get_property data (js ''instructions'') = Some (JStr s)" and "s \<noteq> []"
    and "thinking (store q) \<or> status (store q) = RUNNING"
  shows "handleRequest env req p = Reading p \<and>
         on_end env body q =
           q\<lparr>written := written q
                @ [\<lparr>statusCode = 409,
                     res_headers = cors @ [(''Content-Type'', ''application/json'')],
                     res_body = Some [(''error'', FStr ''Conflict''),
                                      (''message'', FStr ''Agent is already running'')]\<rparr>]\<rparr> \<and>
         store (on_end env body q) = store q \<and>
         controllers (on_end env body q) = controllers q"
  using handleRequest_run[OF assms(1-3)] on_end_valid[OF assms(4-6)] assms(7)
  by (simp add: sendJson_writes)

theorem run_conflict_witness:
  "thinking (store busy) \<and>
   handleRequest runner0 post_run busy = Reading busy \<and>
   written (on_end runner0 body_calc busy) =
     written busy
     @ [\<lparr>statusCode = 409,
          res_headers = cors @ [(''Content-Type'', ''application/json'')],
          res_body = Some [(''error'', FStr ''Conflict''),
                           (''message'', FStr ''Agent is already running'')]\<rparr>] \<and>
   store (on_end runner0 body_calc busy) = store busy \<and>
   instructions (store (on_end runner0 body_calc busy)) = Some (js ''Open Calculator app'') \<and>
   abortController (store (on_end runner0 body_calc busy)) = Some 0"
proof -
  have 1: "httpMethod post_run = ''POST''" "url post_run = ''/run''"
    by (simp_all add: post_run_def)
  have 3: "JSON_parse (if body_calc = [] then js ''{}'' else body_calc)
             = Some (JObj [(js ''instructions'', JStr (js ''Open Calculator app''))])"
    using parse_body_calc bodies_nonempty(1) by simp
  have 4: "js ''Open Calculator app'' \<noteq> []" by (simp add: js_def)
  have 5: "thinking (store busy) \<or> status (store busy) = RUNNING"
    by (simp add: busy_store)
  from run_conflict[OF 1 auth_examples(3) 3 get_instructions_calc 4 5, of runner0]
  have a: "handleRequest runner0 post_run busy = Reading busy"
    and b: "on_end runner0 body_calc busy =
           busy\<lparr>written := written busy
                @ [\<lparr>statusCode = 409,
                     res_headers = cors @ [(''Content-Type'', ''application/json'')],
                     res_body = Some [(''error'', FStr ''Conflict''),
                                      (''message'', FStr ''Agent is already running'')]\<rparr>]\<rparr>"
    by blast+
  show ?thesis unfolding b using a by (simp add: busy_store)
qed

subsection \<open>C3: the key check\<close>

text \<open>
  C3. Where a key is configured (there and not empty), a request whose method is not
  \<^verbatim>\<open>OPTIONS\<close> and whose \<^verbatim>\<open>x-api-key\<close> header is missing or is another text gets one
  response, status 401 and body \<^verbatim>\<open>{error: "Unauthorized"}\<close>, and nothing else in the process
  changes. Where no key is configured, no request is answered 401, neither when it arrives
  nor when the body of a \<^verbatim>\<open>POST /run\<close> has come. An \<^verbatim>\<open>OPTIONS\<close> request is answered 200 with
  no body whatever the configuration and the headers.
\<close>

theorem api_key_gate:
  "(truthy_key (apiKey (config p)) \<and> httpMethod req \<noteq> ''OPTIONS''
      \<and> map_of (headers req) ''x-api-key'' \<noteq> apiKey (config p)
    \<longrightarrow> handleRequest env req p =
          Finished (p\<lparr>written := written p
                        @ [\<lparr>statusCode = 401,
                             res_headers = cors @ [(''Content-Type'', ''application/json'')],
                             res_body = Some [(''error'', FStr ''Unauthorized'')]\<rparr>]\<rparr>)
        \<and> store (after (handleRequest env req p)) = store p
        \<and> controllers (after (handleRequest env req p)) = controllers p)
   \<and> (\<not> truthy_key (apiKey (config p))
    \<longrightarrow> (handleRequest env req p = Reading p
           \<or> statusCode (reply (after (handleRequest env req p))) \<noteq> 401)
        \<and> statusCode (reply (on_end env body q)) \<noteq> 401)
   \<and> (httpMethod req = ''OPTIONS''
    \<longrightarrow> handleRequest env req p =
          Finished (p\<lparr>written := written p
                        @ [\<lparr>statusCode = 200, res_headers = cors, res_body = None\<rparr>]\<rparr>))"
proof (intro conjI impI)
  assume "truthy_key (apiKey (config p)) \<and> httpMethod req \<noteq> ''OPTIONS''
      \<and> map_of (headers req) ''x-api-key'' \<noteq> apiKey (config p)"
  then show a: "handleRequest env req p =
          Finished (p\<lparr>written := written p
                        @ [\<lparr>statusCode = 401,
                             res_headers = cors @ [(''Content-Type'', ''application/json'')],
                             res_body = Some [(''error'', FStr ''Unauthorized'')]\<rparr>]\<rparr>)"
    by (simp add: handleRequest_def sendJson_writes)
  then show "store (after (handleRequest env req p)) = store p"
    and "controllers (after (handleRequest env req p)) = controllers p"
    by simp_all
next
  assume "\<not> truthy_key (apiKey (config p))"
  then show "handleRequest env req p = Reading p
           \<or> statusCode (reply (after (handleRequest env req p))) \<noteq> 401"
    by (simp add: handleRequest_def Let_def preflight_def reply_def)
next
  show "statusCode (reply (on_end env body q)) \<noteq> 401"
    by (simp add: on_end_def caught_def Let_def split: option.split sum.split prod.split)
next
  assume "httpMethod req = ''OPTIONS''"
  then show "handleRequest env req p =
          Finished (p\<lparr>written := written p
                        @ [\<lparr>statusCode = 200, res_headers = cors, res_body = None\<rparr>]\<rparr>)"
    by (simp add: handleRequest_def preflight_def)
qed

theorem api_key_gate_witness:
  "handleRequest runner0 post_stop keyed
     = Finished (keyed\<lparr>written :=
         [\<lparr>statusCode = 401,
           res_headers = cors @ [(''Content-Type'', ''application/json'')],
           res_body = Some [(''error'', FStr ''Unauthorized'')]\<rparr>]\<rparr>) \<and>
   store (after (handleRequest runner0 post_stop keyed)) = store keyed \<and>
   handleRequest runner0 (post_run\<lparr>headers := [(''x-api-key'', ''guess'')]\<rparr>) keyed
     = Finished (keyed\<lparr>written :=
         [\<lparr>statusCode = 401,
           res_headers = cors @ [(''Content-Type'', ''application/json'')],
           res_body = Some [(''error'', FStr ''Unauthorized'')]\<rparr>]\<rparr>) \<and>
   statusCode (reply (after (handleRequest runner0 get_health boot))) \<noteq> 401 \<and>
   statusCode (reply (on_end runner0 body_brace boot)) \<noteq> 401 \<and>
   handleRequest runner0 options_run keyed
     = Finished (keyed\<lparr>written := written keyed
                   @ [\<lparr>statusCode = 200, res_headers = cors, res_body = None\<rparr>]\<rparr>)"
proof -
  have k: "truthy_key (apiKey (config keyed))" "apiKey (config keyed) = Some ''secret''"
    "written keyed = []"
    by (simp_all add: keyed_def boot_def truthy_key_def)
  have b: "\<not> truthy_key (apiKey (config boot))"
    by (simp add: boot_def DEFAULT_CONFIG_def truthy_key_def)
  have nr: "handleRequest runner0 get_health boot \<noteq> Reading boot"
    by (simp add: handleRequest_def get_health_def)
  from api_key_gate[of keyed post_stop runner0] k
  have 1: "handleRequest runner0 post_stop keyed
     = Finished (keyed\<lparr>written :=
         [\<lparr>statusCode = 401,
           res_headers = cors @ [(''Content-Type'', ''application/json'')],
           res_body = Some [(''error'', FStr ''Unauthorized'')]\<rparr>]\<rparr>)"
    and 2: "store (after (handleRequest runner0 post_stop keyed)) = store keyed"
    by (simp_all add: post_stop_def)
  from api_key_gate[of keyed "post_run\<lparr>headers := [(''x-api-key'', ''guess'')]\<rparr>" runner0] k
  have 3: "handleRequest runner0 (post_run\<lparr>headers := [(''x-api-key'', ''guess'')]\<rparr>) keyed
     = Finished (keyed\<lparr>written :=
         [\<lparr>statusCode = 401,
           res_headers = cors @ [(''Content-Type'', ''application/json'')],
           res_body = Some [(''error'', FStr ''Unauthorized'')]\<rparr>]\<rparr>)"
    by (simp add: post_run_def)
  from api_key_gate[of boot get_health runner0 body_brace boot] b nr
  have 4: "statusCode (reply (after (handleRequest runner0 get_health boot))) \<noteq> 401"
    and 5: "statusCode (reply (on_end runner0 body_brace boot)) \<noteq> 401"
    by simp_all
  from api_key_gate[of keyed options_run runner0]
  have 6: "handleRequest runner0 options_run keyed
     = Finished (keyed\<lparr>written := written keyed
                   @ [\<lparr>statusCode = 200, res_headers = cors, res_body = None\<rparr>]\<rparr>)"
    by (simp add: options_run_def)
  from 1 2 3 4 5 6 show ?thesis by blast
qed

subsection \<open>C4: validation of the instructions\<close>

text \<open>
  C4, as amended. When the body of a \<^verbatim>\<open>POST /run\<close> parses as JSON to a value other than
  \<^verbatim>\<open>null\<close>, the answer is 400 \<^verbatim>\<open>{error: "Bad Request", message: "instructions is required and
  must be a string"}\<close> if and only if its \<^verbatim>\<open>instructions\<close> is missing, is not a string, or is
  the empty string; and an answer of 400 leaves the process as it was but for the one
  response, whose status and body are as said.
\<close>

theorem run_validation:
  assumes "JSON_parse (if body = [] then js ''{}'' else body) = Some data" and "data \<noteq> JNull"
  shows "((reply (on_end env body q) =
             json_reply 400
               [(''error'', FStr ''Bad Request''),
                (''message'', FStr ''instructions is required and must be a string'')])
          = (\<nexists>s. get_property data (js ''instructions'') = Some (JStr s) \<and> s \<noteq> []))
       \<and> (statusCode (reply (on_end env body q)) = 400
          \<longrightarrow> on_end env body q =
                sendJson 400
                  [(''error'', FStr ''Bad Request''),
                   (''message'', FStr ''instructions is required and must be a string'')] q
              \<and> store (on_end env body q) = store q)
       \<and> ((\<nexists>s. get_property data (js ''instructions'') = Some (JStr s) \<and> s \<noteq> [])
          \<longrightarrow> on_end env body q =
                q\<lparr>written := written q
                     @ [\<lparr>statusCode = 400,
                          res_headers = cors @ [(''Content-Type'', ''application/json'')],
                          res_body =
                            Some [(''error'', FStr ''Bad Request''),
                                  (''message'',
                                   FStr ''instructions is required and must be a string'')]\<rparr>]\<rparr>)
       \<and> ((\<exists>s. get_property data (js ''instructions'') = Some (JStr s) \<and> s \<noteq> [])
          \<longrightarrow> statusCode (last (written (on_end env body q))) \<noteq> 400)"
proof (cases "\<exists>s. get_property data (js ''instructions'') = Some (JStr s) \<and> s \<noteq> []")
  case True
  then obtain s where s: "get_property data (js ''instructions'') = Some (JStr s)" "s \<noteq> []"
    by blast
  have c: "statusCode (reply (on_end env body q)) \<noteq> 400"
    using on_end_valid[OF assms(1) s, of env q] by simp
  then have d: "statusCode (last (written (on_end env body q))) \<noteq> 400"
    by (simp add: reply_def)
  from c have "reply (on_end env body q) \<noteq>
             json_reply 400
               [(''error'', FStr ''Bad Request''),
                (''message'', FStr ''instructions is required and must be a string'')]"
    by (metis statusCode_json_reply)
  with c d show ?thesis using True by simp
next
  case False
  from on_end_invalid[OF assms False, of env q] False show ?thesis
    by (simp add: sendJson_writes[symmetric])
qed

theorem run_validation_witness:
  "reply (on_end runner0 (js ''{}'') boot) =
     json_reply 400
       [(''error'', FStr ''Bad Request''),
        (''message'', FStr ''instructions is required and must be a string'')] \<and>
   store (on_end runner0 (js ''{}'') boot) = store boot \<and>
   reply (on_end runner0 body_calc boot) \<noteq>
     json_reply 400
       [(''error'', FStr ''Bad Request''),
        (''message'', FStr ''instructions is required and must be a string'')] \<and>
   written (on_end runner0 (js ''{}'') boot) =
     [\<lparr>statusCode = 400,
       res_headers = cors @ [(''Content-Type'', ''application/json'')],
       res_body = Some [(''error'', FStr ''Bad Request''),
                        (''message'', FStr ''instructions is required and must be a string'')]\<rparr>] \<and>
   statusCode (last (written (on_end runner0 body_calc boot))) \<noteq> 400"
proof -
  have 1: "JSON_parse (if js ''{}'' = [] then js ''{}'' else js ''{}'') = Some (JObj [])"
    using parse_braces by simp
  have 2: "JSON_parse (if body_calc = [] then js ''{}'' else body_calc)
             = Some (JObj [(js ''instructions'', JStr (js ''Open Calculator app''))])"
    using parse_body_calc bodies_nonempty(1) by simp
  have n1: "\<nexists>s. get_property (JObj []) (js ''instructions'') = Some (JStr s) \<and> s \<noteq> []"
    by simp
  have n2: "\<exists>s. get_property (JObj [(js ''instructions'', JStr (js ''Open Calculator app''))])
                 (js ''instructions'') = Some (JStr s) \<and> s \<noteq> []"
    by (simp add: js_def)
  have o1: "JObj [] \<noteq> JNull"
    and o2: "JObj [(js ''instructions'', JStr (js ''Open Calculator app''))] \<noteq> JNull"
    by simp_all
  from run_validation[OF 1 o1, of runner0 boot] n1
  have a: "reply (on_end runner0 (js ''{}'') boot) =
     json_reply 400
       [(''error'', FStr ''Bad Request''),
        (''message'', FStr ''instructions is required and must be a string'')]"
    and w: "on_end runner0 (js ''{}'') boot =
          boot\<lparr>written := written boot
                @ [\<lparr>statusCode = 400,
                     res_headers = cors @ [(''Content-Type'', ''application/json'')],
                     res_body =
                       Some [(''error'', FStr ''Bad Request''),
                             (''message'',
                              FStr ''instructions is required and must be a string'')]\<rparr>]\<rparr>"
    by blast+
  from a have "statusCode (reply (on_end runner0 (js ''{}'') boot)) = 400" by simp
  with run_validation[OF 1 o1, of runner0 boot]
  have b: "store (on_end runner0 (js ''{}'') boot) = store boot"
    by blast
  from run_validation[OF 2 o2, of runner0 boot] n2
  have c: "reply (on_end runner0 body_calc boot) \<noteq>
     json_reply 400
       [(''error'', FStr ''Bad Request''),
        (''message'', FStr ''instructions is required and must be a string'')]"
    and e: "statusCode (last (written (on_end runner0 body_calc boot))) \<noteq> 400"
    by blast+
  have d: "written (on_end runner0 (js ''{}'') boot) =
     [\<lparr>statusCode = 400,
       res_headers = cors @ [(''Content-Type'', ''application/json'')],
       res_body = Some [(''error'', FStr ''Bad Request''),
                        (''message'', FStr ''instructions is required and must be a string'')]\<rparr>]"
    unfolding w by (simp add: boot_def)
  from a b c d e show ?thesis by blast
qed

text \<open>
  C4 as stated fails in both directions. With \<^verbatim>\<open>instructions\<close> the empty string the field
  is there and is a string, and the answer is 400. With the body \<^verbatim>\<open>null\<close> the body parses,
  there is no \<^verbatim>\<open>instructions\<close>, and the answer is 500: the destructuring of line 134 throws.
\<close>

theorem run_validation_not_iff:
  "JSON_parse body_blank = Some (JObj [(js ''instructions'', JStr [])]) \<and>
   get_property (JObj [(js ''instructions'', JStr [])]) (js ''instructions'') = Some (JStr []) \<and>
   statusCode (reply (on_end runner0 body_blank boot)) = 400 \<and>
   JSON_parse body_null = Some JNull \<and>
   get_property JNull (js ''instructions'') = None \<and>
   statusCode (reply (on_end runner0 body_null boot)) = 500 \<and>
   store (on_end runner0 body_null boot) = store boot"
proof -
  have 1: "JSON_parse (if body_blank = [] then js ''{}'' else body_blank)
             = Some (JObj [(js ''instructions'', JStr [])])"
    using parse_body_blank bodies_nonempty(2) by simp
  have "on_end runner0 body_blank boot =
     sendJson 400
       [(''error'', FStr ''Bad Request''),
        (''message'', FStr ''instructions is required and must be a string'')] boot"
    by (rule on_end_invalid[OF 1]) simp_all
  then have a: "statusCode (reply (on_end runner0 body_blank boot)) = 400" by simp
  have "on_end runner0 body_null boot = caught TypeError boot"
    using parse_body_null bodies_nonempty(3) by (simp add: on_end_def destructure_def)
  then have b: "statusCode (reply (on_end runner0 body_null boot)) = 500"
    and c: "store (on_end runner0 body_null boot) = store boot"
    by (simp_all add: caught_def)
  from a b c parse_body_blank parse_body_null show ?thesis by simp
qed

subsection \<open>C5: when the run settles\<close>

text \<open>
  C5. After an accepted \<^verbatim>\<open>POST /run\<close>, a run that resolves puts \<open>thinking\<close> down, and one
  that rejects puts \<open>thinking\<close> down, sets the status to \<open>ERROR\<close> and \<open>errorMsg\<close> to the
  message of the error; neither writes a response. The code does so for every reason of
  rejection that has properties (\<open>runAgent_settled\<close>). For a promise rejected with
  \<^verbatim>\<open>undefined\<close> or \<^verbatim>\<open>null\<close> it does not: the store stays as the accepted run left it,
  \<open>thinking\<close> up and the status not \<open>ERROR\<close>, and the next \<^verbatim>\<open>POST /run\<close> is answered 409.
\<close>

theorem runAgent_rejected_nullish:
  "thinking (store busy) \<and>
   store (runAgent_catch Nullish busy) = store busy \<and>
   thinking (store (runAgent_catch Nullish busy)) \<and>
   status (store (runAgent_catch Nullish busy)) \<noteq> ERROR \<and>
   errorMsg (store (runAgent_catch Nullish busy)) = None \<and>
   statusCode (reply (on_end runner0 body_calc (runAgent_catch Nullish busy))) = 409"
proof -
  have s: "store (runAgent_catch Nullish busy) = store busy"
    by (simp add: runAgent_catch_def)
  have 3: "JSON_parse (if body_calc = [] then js ''{}'' else body_calc)
             = Some (JObj [(js ''instructions'', JStr (js ''Open Calculator app''))])"
    using parse_body_calc bodies_nonempty(1) by simp
  have 4: "js ''Open Calculator app'' \<noteq> []" by (simp add: js_def)
  have "statusCode (reply (on_end runner0 body_calc (runAgent_catch Nullish busy))) = 409"
    using on_end_valid[OF 3 get_instructions_calc 4, of runner0 "runAgent_catch Nullish busy"]
    by (simp add: s busy_store)
  with s show ?thesis by (simp add: busy_store)
qed

subsection \<open>C6: stopping\<close>

text \<open>
  C6. A \<^verbatim>\<open>POST /stop\<close> that passes the key check writes \<open>status = END\<close> and
  \<open>thinking = False\<close> to the store, then aborts the controller the store held when the
  request came, if it held one, and then writes one response, status 200 and body
  \<^verbatim>\<open>{success: true, message: "Agent stopped"}\<close>, whether or not a run was active. With no
  controller in the store, or one that is aborted already, nothing else changes; with one
  that is not yet aborted its flag is raised and its listeners run, on the store already
  written, before the response.
\<close>

theorem stop_request:
  assumes "httpMethod req = ''POST''" and "url req = ''/stop''" and "passes_auth req p"
  shows "(abortController (store p) = None \<longrightarrow>
            handleRequest env req p =
              Finished
                (p\<lparr>store := (store p)\<lparr>status := END, thinking := False\<rparr>,
                   written := written p
                     @ [\<lparr>statusCode = 200,
                          res_headers = cors @ [(''Content-Type'', ''application/json'')],
                          res_body = Some [(''success'', FBool True),
                                           (''message'', FStr ''Agent stopped'')]\<rparr>]\<rparr>))
       \<and> (\<forall>h. abortController (store p) = Some h \<and> h < length (controllers p)
                \<and> \<not> controllers p ! h \<longrightarrow>
            handleRequest env req p =
              Finished
                (let p2 = onabort env h
                            (p\<lparr>store := (store p)\<lparr>status := END, thinking := False\<rparr>,
                               controllers := (controllers p)[h := True]\<rparr>)
                 in p2\<lparr>written := written p2
                          @ [\<lparr>statusCode = 200,
                               res_headers = cors @ [(''Content-Type'', ''application/json'')],
                               res_body = Some [(''success'', FBool True),
                                                (''message'', FStr ''Agent stopped'')]\<rparr>]\<rparr>))
       \<and> (\<forall>h. abortController (store p) = Some h
                \<and> (length (controllers p) \<le> h \<or> controllers p ! h) \<longrightarrow>
            handleRequest env req p =
              Finished
                (p\<lparr>store := (store p)\<lparr>status := END, thinking := False\<rparr>,
                   written := written p
                     @ [\<lparr>statusCode = 200,
                          res_headers = cors @ [(''Content-Type'', ''application/json'')],
                          res_body = Some [(''success'', FBool True),
                                           (''message'', FStr ''Agent stopped'')]\<rparr>]\<rparr>))"
proof -
  have e: "handleRequest env req p =
           Finished (sendJson 200 [(''success'', FBool True), (''message'', FStr ''Agent stopped'')]
             (case abortController (store p) of
                None \<Rightarrow> p\<lparr>store := (store p)\<lparr>status := END, thinking := False\<rparr>\<rparr>
              | Some h \<Rightarrow> abort env h (p\<lparr>store := (store p)\<lparr>status := END, thinking := False\<rparr>\<rparr>)))"
    using assms by (simp add: handleRequest_def passes_auth_def Let_def split: if_splits)
  show ?thesis
    unfolding e by (auto simp: abort_def sendJson_writes Let_def)
qed

theorem stop_request_witness:
  "handleRequest runner0 post_stop boot =
     Finished
       (boot\<lparr>store := \<lparr>status = END, thinking = False, instructions = None, messages = None,
                        errorMsg = None, abortController = None\<rparr>,
             written :=
               [\<lparr>statusCode = 200,
                 res_headers = cors @ [(''Content-Type'', ''application/json'')],
                 res_body = Some [(''success'', FBool True),
                                  (''message'', FStr ''Agent stopped'')]\<rparr>]\<rparr>) \<and>
   status (store (after (handleRequest runner0 post_stop busy))) = END \<and>
   thinking (store (after (handleRequest runner0 post_stop busy))) = False \<and>
   controllers (after (handleRequest runner0 post_stop busy)) = [True] \<and>
   written (after (handleRequest runner0 post_stop busy)) =
     written busy
     @ [\<lparr>statusCode = 200,
          res_headers = cors @ [(''Content-Type'', ''application/json'')],
          res_body = Some [(''success'', FBool True),
                           (''message'', FStr ''Agent stopped'')]\<rparr>] \<and>
   written (after (handleRequest runner0 post_stop
              (after (handleRequest runner0 post_stop busy)))) =
     written busy
     @ [\<lparr>statusCode = 200,
          res_headers = cors @ [(''Content-Type'', ''application/json'')],
          res_body = Some [(''success'', FBool True),
                           (''message'', FStr ''Agent stopped'')]\<rparr>,
        \<lparr>statusCode = 200,
          res_headers = cors @ [(''Content-Type'', ''application/json'')],
          res_body = Some [(''success'', FBool True),
                           (''message'', FStr ''Agent stopped'')]\<rparr>]"
proof -
  have 1: "httpMethod post_stop = ''POST''" "url post_stop = ''/stop''"
    by (simp_all add: post_stop_def)
  have n: "abortController (store boot) = None" by (simp add: boot_def idle_def)
  from stop_request[OF 1 auth_examples(2), of runner0] n
  have a: "handleRequest runner0 post_stop boot =
     Finished
       (boot\<lparr>store := \<lparr>status = END, thinking = False, instructions = None, messages = None,
                        errorMsg = None, abortController = None\<rparr>,
             written :=
               [\<lparr>statusCode = 200,
                 res_headers = cors @ [(''Content-Type'', ''application/json'')],
                 res_body = Some [(''success'', FBool True),
                                  (''message'', FStr ''Agent stopped'')]\<rparr>]\<rparr>)"
    by (simp add: boot_def idle_def)
  have h: "abortController (store busy) = Some 0 \<and> 0 < length (controllers busy)
             \<and> \<not> controllers busy ! 0"
    by (simp add: busy_store)
  define stopped where "stopped =
     busy\<lparr>store := (store busy)\<lparr>status := END, thinking := False\<rparr>,
          controllers := [True],
          written := written busy
            @ [\<lparr>statusCode = 200,
                 res_headers = cors @ [(''Content-Type'', ''application/json'')],
                 res_body = Some [(''success'', FBool True),
                                  (''message'', FStr ''Agent stopped'')]\<rparr>]\<rparr>"
  from stop_request[OF 1 auth_examples(4), of runner0] h
  have "handleRequest runner0 post_stop busy =
              Finished
                (let p2 = onabort runner0 0
                            (busy\<lparr>store := (store busy)\<lparr>status := END, thinking := False\<rparr>,
                               controllers := (controllers busy)[0 := True]\<rparr>)
                 in p2\<lparr>written := written p2
                          @ [\<lparr>statusCode = 200,
                               res_headers = cors @ [(''Content-Type'', ''application/json'')],
                               res_body = Some [(''success'', FBool True),
                                                (''message'', FStr ''Agent stopped'')]\<rparr>]\<rparr>)"
    by blast
  then have b: "handleRequest runner0 post_stop busy = Finished stopped"
    by (simp add: runner0_def busy_store stopped_def Let_def)
  have sa: "passes_auth post_stop stopped"
    using auth_examples(4) by (simp add: passes_auth_def stopped_def)
  have sh: "abortController (store stopped) = Some 0
             \<and> (length (controllers stopped) \<le> 0 \<or> controllers stopped ! 0)"
    by (simp add: stopped_def busy_store)
  from stop_request[OF 1 sa, of runner0] sh
  have c: "handleRequest runner0 post_stop stopped =
              Finished
                (stopped\<lparr>store := (store stopped)\<lparr>status := END, thinking := False\<rparr>,
                   written := written stopped
                     @ [\<lparr>statusCode = 200,
                          res_headers = cors @ [(''Content-Type'', ''application/json'')],
                          res_body = Some [(''success'', FBool True),
                                           (''message'', FStr ''Agent stopped'')]\<rparr>]\<rparr>)"
    by blast
  show ?thesis
    unfolding b handled.sel c using a by (simp add: stopped_def busy_store)
qed

subsection \<open>C7: a body that is not JSON\<close>

text \<open>
  C7, as amended. When the body of a \<^verbatim>\<open>POST /run\<close> that passed the key check is not empty
  and is not valid JSON, one response is written, status 500 (not 400) and body
  \<^verbatim>\<open>{error: "Internal Server Error", message}\<close> with the message of the \<^verbatim>\<open>SyntaxError\<close>; a
  line is logged, and the store and the controllers are as they were.
\<close>

theorem run_malformed:
  assumes "httpMethod req = ''POST''" and "url req = ''/run''" and "passes_auth req p"
    and "body \<noteq> []" and "JSON_parse body = None"
  shows "handleRequest env req p = Reading p \<and>
         reply (on_end env body q) =
           json_reply 500
             [(''error'', FStr ''Internal Server Error''), (''message'', FMessage SyntaxError)] \<and>
         statusCode (reply (on_end env body q)) = 500 \<and>
         store (on_end env body q) = store q \<and>
         controllers (on_end env body q) = controllers q \<and>
         on_end env body q =
           q\<lparr>logged := logged q @ [LogError ''[HttpServer] Error handling /run:''],
              written := written q
                @ [\<lparr>statusCode = 500,
                     res_headers = cors @ [(''Content-Type'', ''application/json'')],
                     res_body = Some [(''error'', FStr ''Internal Server Error''),
                                      (''message'', FMessage SyntaxError)]\<rparr>]\<rparr>"
  using handleRequest_run[OF assms(1-3)] assms(4,5)
  by (simp add: on_end_def caught_def sendJson_writes logger_def reply_def json_reply_def)

theorem run_malformed_witness:
  "body_brace \<noteq> [] \<and> JSON_parse body_brace = None \<and>
   handleRequest runner0 post_run boot = Reading boot \<and>
   statusCode (reply (on_end runner0 body_brace boot)) = 500 \<and>
   store (on_end runner0 body_brace boot) = store boot \<and>
   written (on_end runner0 body_brace boot) =
     [\<lparr>statusCode = 500,
       res_headers = cors @ [(''Content-Type'', ''application/json'')],
       res_body = Some [(''error'', FStr ''Internal Server Error''),
                        (''message'', FMessage SyntaxError)]\<rparr>]"
proof -
  have 1: "httpMethod post_run = ''POST''" "url post_run = ''/run''"
    by (simp_all add: post_run_def)
  note r = run_malformed[OF 1 auth_examples(1) bodies_nonempty(4) parse_body_brace, of runner0 boot]
  from r have e: "on_end runner0 body_brace boot =
           boot\<lparr>logged := logged boot @ [LogError ''[HttpServer] Error handling /run:''],
              written := written boot
                @ [\<lparr>statusCode = 500,
                     res_headers = cors @ [(''Content-Type'', ''application/json'')],
                     res_body = Some [(''error'', FStr ''Internal Server Error''),
                                      (''message'', FMessage SyntaxError)]\<rparr>]\<rparr>"
    by blast
  have w: "written (on_end runner0 body_brace boot) =
     [\<lparr>statusCode = 500,
       res_headers = cors @ [(''Content-Type'', ''application/json'')],
       res_body = Some [(''error'', FStr ''Internal Server Error''),
                        (''message'', FMessage SyntaxError)]\<rparr>]"
    unfolding e by (simp add: boot_def)
  from r w bodies_nonempty(4) parse_body_brace show ?thesis by blast
qed

text \<open>
  C7 as stated fails on the empty body: it is not valid JSON, and the answer is 400, since
  line 133 parses \<^verbatim>\<open>{}\<close> in its place.
\<close>

theorem run_empty_body_not_500:
  "JSON_parse [] = None \<and>
   passes_auth post_run boot \<and>
   statusCode (reply (serve runner0 post_run [] boot)) = 400"
proof -
  have 1: "httpMethod post_run = ''POST''" "url post_run = ''/run''"
    by (simp_all add: post_run_def)
  have 3: "JSON_parse (if ([]::ustring) = [] then js ''{}'' else []) = Some (JObj [])"
    using parse_braces by simp
  have "serve runner0 post_run [] boot = on_end runner0 [] boot"
    using handleRequest_run[OF 1 auth_examples(1), of runner0] by (simp add: serve_def)
  moreover have "on_end runner0 [] boot =
     sendJson 400
       [(''error'', FStr ''Bad Request''),
        (''message'', FStr ''instructions is required and must be a string'')] boot"
    by (rule on_end_invalid[OF 3]) simp_all
  ultimately show ?thesis using parse_empty auth_examples(1) by simp
qed

subsection \<open>C8: polling\<close>

text \<open>
  C8. \<^verbatim>\<open>GET /health\<close> and \<^verbatim>\<open>GET /status\<close> add one response to the process and change
  nothing else: every field of the store, the controllers, the listener and the
  configuration are as they were, whether the key check lets the request through or not.
\<close>

theorem polling_reads_only:
  assumes "httpMethod req = ''GET''" and "url req = ''/health'' \<or> url req = ''/status''"
  shows "\<exists>r. handleRequest env req p = Finished (p\<lparr>written := written p @ [r]\<rparr>) \<and>
             store (after (handleRequest env req p)) = store p \<and>
             controllers (after (handleRequest env req p)) = controllers p"
  using assms by (auto simp: handleRequest_def sendJson_def)

theorem polling_reads_only_witness:
  "store (after (handleRequest runner0 get_health busy)) = store busy \<and>
   store (after (handleRequest runner0 get_status busy)) = store busy \<and>
   store (after (handleRequest runner0 get_status keyed)) = store keyed"
proof -
  have 1: "httpMethod get_health = ''GET''" "url get_health = ''/health'' \<or> url get_health = ''/status''"
    by (simp_all add: get_health_def)
  have 2: "httpMethod get_status = ''GET''" "url get_status = ''/health'' \<or> url get_status = ''/status''"
    by (simp_all add: get_status_def)
  from polling_reads_only[OF 1, of runner0 busy] polling_reads_only[OF 2, of runner0 busy]
    polling_reads_only[OF 2, of runner0 keyed]
  show ?thesis by blast
qed

subsection \<open>C9: configuring the service\<close>




subsection \<open>C10: the empty body\<close>

text \<open>
  C10. A \<^verbatim>\<open>POST /run\<close> whose body is empty is not taken for malformed JSON, although the
  empty text is not JSON: \<^verbatim>\<open>{}\<close> is parsed in its place, so one response is written, with
  status 400 and body \<^verbatim>\<open>{error: "Bad Request", message: "instructions is required and must
  be a string"}\<close>, not 500, and the process is as it was but for that response.
\<close>

theorem run_empty_body:
  assumes "httpMethod req = ''POST''" and "url req = ''/run''" and "passes_auth req p"
    and "foldl on_data [] chunks = []"
  shows "JSON_parse [] = None \<and> JSON_parse (js ''{}'') = Some (JObj []) \<and>
         handleRequest env req p = Reading p \<and>
         on_end env (foldl on_data [] chunks) q =
           sendJson 400
             [(''error'', FStr ''Bad Request''),
              (''message'', FStr ''instructions is required and must be a string'')] q \<and>
         statusCode (reply (on_end env (foldl on_data [] chunks) q)) = 400 \<and>
         store (on_end env (foldl on_data [] chunks) q) = store q \<and>
         serve env req chunks p =
           sendJson 400
             [(''error'', FStr ''Bad Request''),
              (''message'', FStr ''instructions is required and must be a string'')] p \<and>
         on_end env (foldl on_data [] chunks) q =
           q\<lparr>written := written q
                @ [\<lparr>statusCode = 400,
                     res_headers = cors @ [(''Content-Type'', ''application/json'')],
                     res_body =
                       Some [(''error'', FStr ''Bad Request''),
                             (''message'',
                              FStr ''instructions is required and must be a string'')]\<rparr>]\<rparr> \<and>
         serve env req chunks p =
           p\<lparr>written := written p
                @ [\<lparr>statusCode = 400,
                     res_headers = cors @ [(''Content-Type'', ''application/json'')],
                     res_body =
                       Some [(''error'', FStr ''Bad Request''),
                             (''message'',
                              FStr ''instructions is required and must be a string'')]\<rparr>]\<rparr>"
proof -
  have 3: "JSON_parse (if ([]::ustring) = [] then js ''{}'' else []) = Some (JObj [])"
    using parse_braces by simp
  have e: "on_end env [] x =
     sendJson 400
       [(''error'', FStr ''Bad Request''),
        (''message'', FStr ''instructions is required and must be a string'')] x" for x
    by (rule on_end_invalid[OF 3]) simp_all
  have s: "serve env req chunks p = on_end env [] p"
    using handleRequest_run[OF assms(1-3), of env] assms(4) by (simp add: serve_def)
  show ?thesis
    unfolding s assms(4) e
    using handleRequest_run[OF assms(1-3), of env] parse_empty parse_braces
    by (simp add: sendJson_writes[symmetric])
qed

theorem run_empty_body_witness:
  "foldl on_data [] [] = [] \<and> foldl on_data [] [[], []] = [] \<and>
   written (serve runner0 post_run [] boot) =
     [\<lparr>statusCode = 400,
       res_headers = cors @ [(''Content-Type'', ''application/json'')],
       res_body = Some [(''error'', FStr ''Bad Request''),
                        (''message'', FStr ''instructions is required and must be a string'')]\<rparr>] \<and>
   store (serve runner0 post_run [] boot) = store boot \<and>
   statusCode (reply (on_end runner0 (foldl on_data [] [[], []]) busy)) = 400 \<and>
   store (on_end runner0 (foldl on_data [] [[], []]) busy) = store busy"
proof -
  have 1: "httpMethod post_run = ''POST''" "url post_run = ''/run''"
    by (simp_all add: post_run_def)
  have 3: "foldl on_data [] ([]::ustring list) = []" by simp
  have 4: "foldl on_data [] [[], []] = []" by (simp add: on_data_def)
  from run_empty_body[OF 1 auth_examples(1) 3, of runner0 boot]
  have a: "serve runner0 post_run [] boot =
           boot\<lparr>written := written boot
                @ [\<lparr>statusCode = 400,
                     res_headers = cors @ [(''Content-Type'', ''application/json'')],
                     res_body =
                       Some [(''error'', FStr ''Bad Request''),
                             (''message'',
                              FStr ''instructions is required and must be a string'')]\<rparr>]\<rparr>"
    by blast
  from run_empty_body[OF 1 auth_examples(1) 4, of runner0 busy]
  have b: "statusCode (reply (on_end runner0 (foldl on_data [] [[], []]) busy)) = 400"
    and c: "store (on_end runner0 (foldl on_data [] [[], []]) busy) = store busy"
    by blast+
  show ?thesis
    unfolding a using b c 3 4 by (simp add: boot_def)
qed

end
